theory Spec2Isabelle
  imports Complex_Main "HOL-Library.Char_ord" "HOL-Library.List_Lexorder"
    "HOL-Library.Product_Lexorder"
begin

section \<open>Personal expense tracker: the data logic of PersonalExpenseTracker.py\<close>

text \<open>
  The program keeps its records in one CSV file (\<open>expenses.csv\<close>) and works on it through
  pandas. The embedding follows the four functions of the source and the module-level budget
  code. Amounts are Python floats in the source; here they are rationals, so sums and means
  are exact and the rounding of binary floating point is not part of the model; integers
  are unbounded, where pandas keeps them in 64 bits.
  The pandas functions the source calls are modelled as far as the source relies on them;
  the two text coercions whose full grammar belongs to pandas (which texts are dates, which
  texts are numbers) are parameters of the operations, so that every result holds for any
  cell-by-cell coercion. An exception raised inside a coercion (dates with mixed time
  zones) is outside the model.
\<close>

subsection \<open>Values\<close>

text \<open>A \<open>datetime.date\<close>, and a pandas monthly period (year, month).\<close>

record date =
  year :: nat
  month :: nat
  day :: nat

type_synonym period = "nat \<times> nat"

definition to_period :: "date \<Rightarrow> period" where
  "to_period d = (year d, month d)"

text \<open>
  A value in a column of a DataFrame that \<open>pd.read_csv\<close> returned: missing (NaN), an integer,
  a float (\<open>Num\<close>), a truth value, or text.
\<close>

datatype cell = NaN | Integer int | Num rat | Bool bool | Str string

text \<open>What a text that is a number reads as: an integer (\<open>5\<close>) or a float (\<open>5.0\<close>).\<close>

datatype number = Whole int | Fractional rat

definition number_value :: "number \<Rightarrow> rat" where
  "number_value n = (case n of Whole i \<Rightarrow> of_int i | Fractional q \<Rightarrow> q)"

text \<open>One line of the file (\<open>string row\<close>) or of the DataFrame (\<open>cell row\<close>), under the header
  \<open>Date,Amount,Category,Description\<close>.\<close>

record 'a row =
  Date :: 'a
  Amount :: 'a
  Category :: 'a
  Description :: 'a

text \<open>
  The file: missing, present with a content that \<open>pd.read_csv\<close> rejects with an exception
  (an empty file, lines of different lengths), or the lines under the header above.
\<close>

datatype csv_file = Absent | Garbled | Table "string row list"

datatype py_error = FileNotFoundError | ParserError | NameError | TypeError

text \<open>The texts the functions return; an error text carries the exception it prints.\<close>

datatype message =
    Expense_added_successfully
  | Error_adding_expense py_error
  | No_expenses_recorded_yet
  | Error_generating_report py_error
  | Error_predicting_expenses py_error
  | Predicted_total "rat option"

subsection \<open>Reading and writing the file with pandas\<close>

text \<open>The texts \<open>pd.read_csv\<close> reads as a missing value by default.\<close>

definition na_values :: "string list" where
  "na_values = ['''', ''#N/A'', ''#N/A N/A'', ''#NA'', ''-1.#IND'', ''-1.#QNAN'', ''-NaN'',
     ''-nan'', ''1.#IND'', ''1.#QNAN'', ''<NA>'', ''N/A'', ''NA'', ''NULL'', ''NaN'', ''None'',
     ''n/a'', ''nan'', ''null'']"

definition is_na :: "string \<Rightarrow> bool" where
  "is_na s = (s \<in> set na_values)"

text \<open>The texts \<open>pd.read_csv\<close> reads as truth values by default.\<close>

definition truth :: "string \<Rightarrow> bool option" where
  "truth s =
     (if s \<in> set [''True'', ''TRUE'', ''true''] then Some True
      else if s \<in> set [''False'', ''FALSE'', ''false''] then Some False
      else None)"

text \<open>
  \<open>pd.read_csv\<close> types each column as a whole, trying integers, then floats, then truth
  values, and keeping the texts as they are when none fits. A column is of integers when
  every text in it is an integer and none is missing; of floats when every text that is not
  missing is a number (\<open>num\<close> recognises it); of truth values when every text that is not
  missing is one.
\<close>

definition integer_column :: "(string \<Rightarrow> number option) \<Rightarrow> string list \<Rightarrow> bool" where
  "integer_column num col =
     list_all (\<lambda>s. \<not> is_na s \<and> (case num s of Some (Whole i) \<Rightarrow> True | _ \<Rightarrow> False)) col"

definition numeric_column :: "(string \<Rightarrow> number option) \<Rightarrow> string list \<Rightarrow> bool" where
  "numeric_column num col = list_all (\<lambda>s. is_na s \<or> num s \<noteq> None) col"

definition truth_column :: "string list \<Rightarrow> bool" where
  "truth_column col = list_all (\<lambda>s. is_na s \<or> truth s \<noteq> None) col"

definition read_cell :: "(string \<Rightarrow> number option) \<Rightarrow> string list \<Rightarrow> string \<Rightarrow> cell" where
  "read_cell num col s =
     (if is_na s then NaN
      else if integer_column num col then
        (case num s of Some (Whole i) \<Rightarrow> Integer i | _ \<Rightarrow> Str s)
      else if numeric_column num col then
        (case num s of Some n \<Rightarrow> Num (number_value n) | None \<Rightarrow> Str s)
      else if truth_column col then
        (case truth s of Some b \<Rightarrow> Bool b | None \<Rightarrow> Str s)
      else Str s)"

definition read_table :: "(string \<Rightarrow> number option) \<Rightarrow> string row list \<Rightarrow> cell row list" where
  "read_table num rs =
     map (\<lambda>r. \<lparr>Date = read_cell num (map Date rs) (Date r),
               Amount = read_cell num (map Amount rs) (Amount r),
               Category = read_cell num (map Category rs) (Category r),
               Description = read_cell num (map Description rs) (Description r)\<rparr>) rs"

definition pd_read_csv :: "(string \<Rightarrow> number option) \<Rightarrow> csv_file \<Rightarrow> py_error + cell row list" where
  "pd_read_csv num file =
     (case file of
        Absent \<Rightarrow> Inl FileNotFoundError
      | Garbled \<Rightarrow> Inl ParserError
      | Table rs \<Rightarrow> Inr (read_table num rs))"








subsection \<open>adds_expense\<close>


subsection \<open>The cleaning shared by view_report and predict_the_next_month\<close>

text \<open>
  \<open>pd.to_datetime(..., errors="coerce")\<close> and \<open>pd.to_numeric(..., errors="coerce")\<close> give a
  missing value where the cell is missing or cannot be read. \<open>dt\<close> is the reading of a
  number or a text as a date, \<open>num\<close> the reading of a text as a number; the same \<open>num\<close>
  decides in \<open>pd.read_csv\<close> whether a column holds numbers. A truth value is no date, and
  as a number it is 1 or 0.
\<close>

definition to_datetime :: "(cell \<Rightarrow> date option) \<Rightarrow> cell \<Rightarrow> date option" where
  "to_datetime dt c = (case c of NaN \<Rightarrow> None | Bool b \<Rightarrow> None | _ \<Rightarrow> dt c)"

definition to_numeric :: "(string \<Rightarrow> number option) \<Rightarrow> cell \<Rightarrow> rat option" where
  "to_numeric num c =
     (case c of
        NaN \<Rightarrow> None
      | Integer i \<Rightarrow> Some (of_int i)
      | Num q \<Rightarrow> Some q
      | Bool b \<Rightarrow> Some (of_bool b)
      | Str s \<Rightarrow> map_option number_value (num s))"

text \<open>
  Lines 51 to 63 of \<open>view_report\<close> and, word for word, lines 86 to 98 of
  \<open>predict_the_next_month\<close>: coerce the date, drop the rows without one, add the month,
  coerce the amount, drop the rows without one. A row that survived both \<open>dropna\<close> calls
  is kept with its month, its category cell and its amount.
\<close>

record kept =
  month_of :: period
  label :: cell
  amt :: rat

definition clean :: "(cell \<Rightarrow> date option) \<Rightarrow> (string \<Rightarrow> number option) \<Rightarrow> cell row \<Rightarrow> kept option" where
  "clean dt num r =
     (case to_datetime dt (Date r) of
        None \<Rightarrow> None
      | Some d \<Rightarrow>
          (case to_numeric num (Amount r) of
             None \<Rightarrow> None
           | Some a \<Rightarrow> Some \<lparr>month_of = to_period d, label = Category r, amt = a\<rparr>))"

definition cleaned :: "(cell \<Rightarrow> date option) \<Rightarrow> (string \<Rightarrow> number option) \<Rightarrow> cell row list \<Rightarrow> kept list" where
  "cleaned dt num df = List.map_filter (clean dt num) df"

subsection \<open>groupby, sum, unstack, mean\<close>

text \<open>
  \<open>groupby(keys)[...].sum()\<close>: one entry per distinct key, keys in sorted order, the value the
  sum of the group. Rows with a missing key are left out by \<open>groupby\<close> (its default
  \<open>dropna=True\<close>). \<open>order\<close> maps a key to the value it is sorted by.
\<close>

fun label_order :: "cell \<Rightarrow> nat \<times> rat \<times> string" where
  "label_order NaN = (0, 0, [])"
| "label_order (Bool b) = (1, of_bool b, [])"
| "label_order (Integer i) = (2, of_int i, [])"
| "label_order (Num q) = (3, q, [])"
| "label_order (Str s) = (4, 0, s)"

definition groupby_sum :: "(kept \<Rightarrow> 'k) \<Rightarrow> ('k \<Rightarrow> 'o::linorder) \<Rightarrow> kept list \<Rightarrow> ('k \<times> rat) list" where
  "groupby_sum key order ks =
     map (\<lambda>k. (k, sum_list (map amt (filter (\<lambda>r. key r = k) ks))))
       (sort_key order (remdups (map key ks)))"

definition by_month_and_category :: "kept list \<Rightarrow> ((period \<times> cell) \<times> rat) list" where
  "by_month_and_category ks =
     groupby_sum (\<lambda>r. (month_of r, label r)) (\<lambda>(m, c). (m, label_order c))
       (filter (\<lambda>r. label r \<noteq> NaN) ks)"

definition by_month :: "kept list \<Rightarrow> (period \<times> rat) list" where
  "by_month ks = groupby_sum month_of (\<lambda>m. m) ks"

text \<open>The report table: row labels, column labels, and the values row by row.\<close>

record report =
  index :: "period list"
  columns :: "cell list"
  cells :: "rat list list"

definition unstack :: "rat \<Rightarrow> ((period \<times> cell) \<times> rat) list \<Rightarrow> report" where
  "unstack fill_value s =
     (let idx = sort_key (\<lambda>m. m) (remdups (map (fst \<circ> fst) s));
          cols = sort_key label_order (remdups (map (snd \<circ> fst) s))
      in \<lparr>index = idx, columns = cols,
          cells = map (\<lambda>m. map (\<lambda>c. case map_of s (m, c) of Some v \<Rightarrow> v | None \<Rightarrow> fill_value) cols) idx\<rparr>)"

text \<open>\<open>Series.mean()\<close>: NaN (here \<open>None\<close>) on an empty series.\<close>

definition mean :: "rat list \<Rightarrow> rat option" where
  "mean xs = (if xs = [] then None else Some (sum_list xs / of_nat (length xs)))"

subsection \<open>view_report and predict_the_next_month\<close>

definition view_report ::
  "(cell \<Rightarrow> date option) \<Rightarrow> (string \<Rightarrow> number option) \<Rightarrow> csv_file \<Rightarrow> message option \<times> report option" where
  "view_report dt num file =
     (if file = Absent then (Some No_expenses_recorded_yet, None)
      else (case pd_read_csv num file of
              Inl e \<Rightarrow> (Some (Error_generating_report e), None)
            | Inr df \<Rightarrow> (None, Some (unstack 0 (by_month_and_category (cleaned dt num df))))))"

definition predict_the_next_month ::
  "(cell \<Rightarrow> date option) \<Rightarrow> (string \<Rightarrow> number option) \<Rightarrow> csv_file \<Rightarrow> message" where
  "predict_the_next_month dt num file =
     (if file = Absent then No_expenses_recorded_yet
      else (case pd_read_csv num file of
              Inl e \<Rightarrow> Error_predicting_expenses e
            | Inr df \<Rightarrow>
                (let monthly_totals = by_month (cleaned dt num df);
                     prediction = mean (map snd monthly_totals)
                 in Predicted_total prediction)))"

subsection \<open>calculate_the_monthly_budget\<close>

definition calculate_the_monthly_budget :: "rat \<Rightarrow> rat \<Rightarrow> rat \<times> rat" where
  "calculate_the_monthly_budget yearly_income savings_goal =
     (let monthly_income = yearly_income / 12;
          remaining_budget = monthly_income - savings_goal
      in (monthly_income, remaining_budget))"

subsection \<open>The module-level budget code\<close>

text \<open>
  Lines 132 to 140: the variable \<open>remaining_budget\<close> is assigned only when the yearly income
  is positive. \<open>None\<close> is the unassigned variable.
\<close>

definition budget_sidebar :: "rat \<Rightarrow> rat \<Rightarrow> rat option" where
  "budget_sidebar yearly_income savings_goal =
     (if yearly_income > 0
      then (let (monthly_income, remaining_budget) =
                  calculate_the_monthly_budget yearly_income savings_goal
            in Some remaining_budget)
      else None)"

text \<open>
  What Python's \<open>+\<close> and \<open>-\<close> do on the values \<open>Series.sum()\<close> can return here: numbers add
  (a truth value counting as 1 or 0), texts are joined, a number and a text raise
  TypeError.
\<close>

datatype py_value = Number rat | Text string

definition py_of_cell :: "cell \<Rightarrow> py_value" where
  "py_of_cell c =
     (case c of
        NaN \<Rightarrow> Number 0
      | Integer i \<Rightarrow> Number (of_int i)
      | Num q \<Rightarrow> Number q
      | Bool b \<Rightarrow> Number (of_bool b)
      | Str s \<Rightarrow> Text s)"

fun py_add :: "py_value \<Rightarrow> py_value \<Rightarrow> py_error + py_value" where
  "py_add (Number a) (Number b) = Inr (Number (a + b))"
| "py_add (Text s) (Text t) = Inr (Text (s @ t))"
| "py_add _ _ = Inl TypeError"

fun py_sub :: "rat \<Rightarrow> py_value \<Rightarrow> py_error + rat" where
  "py_sub a (Number b) = Inr (a - b)"
| "py_sub a (Text t) = Inl TypeError"

text \<open>
  \<open>Series.sum()\<close>: missing values count as 0, the values are added from the first on, and the
  sum of no values is 0. The \<open>Amount\<close> column is summed as \<open>pd.read_csv\<close> typed it.
\<close>

fun add_all :: "py_value \<Rightarrow> py_value list \<Rightarrow> py_error + py_value" where
  "add_all acc [] = Inr acc"
| "add_all acc (v # vs) = (case py_add acc v of Inl e \<Rightarrow> Inl e | Inr acc' \<Rightarrow> add_all acc' vs)"

definition series_sum :: "cell list \<Rightarrow> py_error + py_value" where
  "series_sum cs =
     (case map py_of_cell cs of [] \<Rightarrow> Inr (Number 0) | v # vs \<Rightarrow> add_all v vs)"

text \<open>
  Lines 214 to 219. The month of a row is compared with the current month as text
  (\<open>YYYY-MM\<close> on both sides); a row without a date has the month text \<open>NaT\<close> and is never
  selected. \<open>current_month\<close> is the month of \<open>datetime.now()\<close>.
\<close>

definition in_month :: "(cell \<Rightarrow> date option) \<Rightarrow> period \<Rightarrow> cell row \<Rightarrow> bool" where
  "in_month dt current_month r =
     (case to_datetime dt (Date r) of None \<Rightarrow> False | Some d \<Rightarrow> to_period d = current_month)"

definition total_expenses ::
  "(cell \<Rightarrow> date option) \<Rightarrow> (string \<Rightarrow> number option) \<Rightarrow> period \<Rightarrow> csv_file \<Rightarrow> py_error + py_value" where
  "total_expenses dt num current_month file =
     (if file \<noteq> Absent then
        (case pd_read_csv num file of
           Inl e \<Rightarrow> Inl e
         | Inr df \<Rightarrow> series_sum (map Amount (filter (in_month dt current_month) df)))
      else Inr (Number 0))"

text \<open>
  Lines 209 to 225: what the page shows under "Remaining Monthly Budget". Nothing when the
  yearly income is not positive; otherwise the remaining budget, or the error text of the
  exception caught.
\<close>

datatype shown = Nothing_shown | Remaining_budget rat | Budget_error py_error

definition remaining_budget_block ::
  "(cell \<Rightarrow> date option) \<Rightarrow> (string \<Rightarrow> number option) \<Rightarrow> period \<Rightarrow> csv_file \<Rightarrow> rat \<Rightarrow> rat option
     \<Rightarrow> shown" where
  "remaining_budget_block dt num current_month file yearly_income remaining_budget =
     (if yearly_income > 0 then
        (case total_expenses dt num current_month file of
           Inl e \<Rightarrow> Budget_error e
         | Inr expenses \<Rightarrow>
             (case remaining_budget of
                None \<Rightarrow> Budget_error NameError
              | Some budget \<Rightarrow>
                  (case py_sub budget expenses of
                     Inl e \<Rightarrow> Budget_error e
                   | Inr remaining_budget_after_expenses \<Rightarrow>
                       Remaining_budget remaining_budget_after_expenses)))
      else Nothing_shown)"

text \<open>One run of the page on the two sidebar inputs: the sidebar code, then the block.\<close>

definition page_budget ::
  "(cell \<Rightarrow> date option) \<Rightarrow> (string \<Rightarrow> number option) \<Rightarrow> period \<Rightarrow> csv_file \<Rightarrow> rat \<Rightarrow> rat \<Rightarrow> shown" where
  "page_budget dt num current_month file yearly_income savings_goal =
     remaining_budget_block dt num current_month file yearly_income
       (budget_sidebar yearly_income savings_goal)"

subsection \<open>Concrete coercions for the examples\<close>

text \<open>
  The operations above take the date and number readings as parameters. The examples
  use the notations the program itself writes: dates as \<open>YYYY-MM-DD\<close> and amounts as plain
  decimals. pandas reads more notations than these.
\<close>

definition is_digit :: "char \<Rightarrow> bool" where
  "is_digit c = (CHR ''0'' \<le> c \<and> c \<le> CHR ''9'')"

definition digit_value :: "char \<Rightarrow> nat" where
  "digit_value c = of_char c - 48"

definition digits_value :: "string \<Rightarrow> nat" where
  "digits_value s = foldl (\<lambda>n c. 10 * n + digit_value c) 0 s"

definition leap_year :: "nat \<Rightarrow> bool" where
  "leap_year y = (y mod 4 = 0 \<and> (y mod 100 \<noteq> 0 \<or> y mod 400 = 0))"

definition days_in_month :: "nat \<Rightarrow> nat \<Rightarrow> nat" where
  "days_in_month y m =
     (if m = 2 then (if leap_year y then 29 else 28)
      else if m \<in> {4, 6, 9, 11} then 30 else 31)"

fun iso_date :: "cell \<Rightarrow> date option" where
  "iso_date (Str [y1, y2, y3, y4, s1, m1, m2, s2, d1, d2]) =
     (let y = digits_value [y1, y2, y3, y4]; m = digits_value [m1, m2];
          d = digits_value [d1, d2]
      in if list_all is_digit [y1, y2, y3, y4, m1, m2, d1, d2] \<and> s1 = CHR ''-'' \<and> s2 = CHR ''-''
            \<and> 1 \<le> y \<and> 1 \<le> m \<and> m \<le> 12 \<and> 1 \<le> d \<and> d \<le> days_in_month y m
         then Some \<lparr>year = y, month = m, day = d\<rparr> else None)"
| "iso_date _ = None"

definition decimal :: "string \<Rightarrow> number option" where
  "decimal s =
     (let body = (case s of CHR ''-'' # t \<Rightarrow> t | _ \<Rightarrow> s);
          whole = takeWhile is_digit body;
          rest = dropWhile is_digit body
      in if whole = [] then None
         else (case rest of
                 [] \<Rightarrow>
                   Some (Whole ((case s of CHR ''-'' # t \<Rightarrow> - 1 | _ \<Rightarrow> 1)
                                 * int (digits_value whole)))
               | c # places \<Rightarrow>
                   if c = CHR ''.'' \<and> list_all is_digit places
                   then Some (Fractional ((case s of CHR ''-'' # t \<Rightarrow> - 1 | _ \<Rightarrow> 1)
                                 * (of_nat (digits_value whole)
                                    + of_nat (digits_value places) / 10 ^ length places)))
                   else None))"



subsection \<open>Notions the properties are stated with\<close>








text \<open>A row of the DataFrame that passes both coercions.\<close>

definition well_formed :: "(cell \<Rightarrow> date option) \<Rightarrow> (string \<Rightarrow> number option) \<Rightarrow> cell row \<Rightarrow> bool" where
  "well_formed dt num r = (to_datetime dt (Date r) \<noteq> None \<and> to_numeric num (Amount r) \<noteq> None)"

text \<open>Reading the report table at a row label and a column label (\<open>report.loc[m, c]\<close>), and
  the sum of one row over all its columns.\<close>

fun position :: "'a \<Rightarrow> 'a list \<Rightarrow> nat" where
  "position x [] = 0"
| "position x (y # ys) = (if x = y then 0 else Suc (position x ys))"

definition cell_at :: "report \<Rightarrow> period \<Rightarrow> cell \<Rightarrow> rat option" where
  "cell_at t m c =
     (if m \<in> set (index t) \<and> c \<in> set (columns t)
      then Some (cells t ! position m (index t) ! position c (columns t)) else None)"

definition row_total :: "report \<Rightarrow> period \<Rightarrow> rat" where
  "row_total t m = sum_list (cells t ! position m (index t))"

text \<open>
  The words of the specification: the rows with a given month key and category, the monthly
  total of a month (all categories together), and the mean of the monthly totals over the
  months that occur.
\<close>

definition spec_cell_sum :: "kept list \<Rightarrow> period \<Rightarrow> cell \<Rightarrow> rat" where
  "spec_cell_sum ks m c = sum_list (map amt (filter (\<lambda>r. month_of r = m \<and> label r = c) ks))"

definition spec_monthly_total :: "kept list \<Rightarrow> period \<Rightarrow> rat" where
  "spec_monthly_total ks m = sum_list (map amt (filter (\<lambda>r. month_of r = m) ks))"

definition spec_mean_of_monthly_totals :: "kept list \<Rightarrow> rat" where
  "spec_mean_of_monthly_totals ks =
     (\<Sum>m \<in> month_of ` set ks. spec_monthly_total ks m) / of_nat (card (month_of ` set ks))"

text \<open>
  The monthly totals of the forecaster against the report: the same months in the same
  order, each total equal to the sum of the month's row of the report.
\<close>

definition totals_agree :: "(cell \<Rightarrow> date option) \<Rightarrow> (string \<Rightarrow> number option) \<Rightarrow> string row list \<Rightarrow> bool" where
  "totals_agree dt num rs =
     (case view_report dt num (Table rs) of
        (e, Some t) \<Rightarrow>
          by_month (cleaned dt num (read_table num rs))
            = map (\<lambda>m. (m, row_total t m)) (index t)
      | (e, None) \<Rightarrow> False)"

section \<open>Properties\<close>

subsection \<open>Auxiliary facts\<close>

lemma position_less: "x \<in> set xs \<Longrightarrow> position x xs < length xs"
  by (induction xs) auto

lemma nth_position: "x \<in> set xs \<Longrightarrow> xs ! position x xs = x"
  by (induction xs) auto

lemma map_of_tabulate:
  "map_of (map (\<lambda>k. (k, f k)) xs) k = (if k \<in> set xs then Some (f k) else None)"
  by (induction xs) auto

lemma groupby_sum_keys:
  "map fst (groupby_sum key order ks) = sort_key order (remdups (map key ks))"
  by (simp add: groupby_sum_def comp_def)

lemma groupby_sum_lookup:
  "map_of (groupby_sum key order ks) k =
     (if k \<in> key ` set ks then Some (sum_list (map amt (filter (\<lambda>r. key r = k) ks))) else None)"
  by (simp add: groupby_sum_def map_of_tabulate)

lemma by_month_as_table:
  "by_month ks = map (\<lambda>m. (m, spec_monthly_total ks m)) (sort (remdups (map month_of ks)))"
  by (simp add: by_month_def groupby_sum_def spec_monthly_total_def)

lemma index_unstack: "set (index (unstack z s)) = (fst \<circ> fst) ` set s"
  by (simp add: unstack_def Let_def)

lemma columns_unstack: "set (columns (unstack z s)) = (snd \<circ> fst) ` set s"
  by (simp add: unstack_def Let_def)

lemma cell_at_unstack:
  assumes "m \<in> set (index (unstack z s))" and "c \<in> set (columns (unstack z s))"
  shows "cell_at (unstack z s) m c = Some (case map_of s (m, c) of Some v \<Rightarrow> v | None \<Rightarrow> z)"
proof -
  let ?t = "unstack z s"
  have i: "position m (index ?t) < length (index ?t)" "index ?t ! position m (index ?t) = m"
    using assms(1) by (simp_all add: position_less nth_position)
  have j: "position c (columns ?t) < length (columns ?t)" "columns ?t ! position c (columns ?t) = c"
    using assms(2) by (simp_all add: position_less nth_position)
  have "cells ?t = map (\<lambda>m. map (\<lambda>c. case map_of s (m, c) of Some v \<Rightarrow> v | None \<Rightarrow> z) (columns ?t)) (index ?t)"
    by (simp add: unstack_def Let_def)
  then have "cells ?t ! position m (index ?t) ! position c (columns ?t)
      = (case map_of s (m, c) of Some v \<Rightarrow> v | None \<Rightarrow> z)"
    using i j by simp
  then show ?thesis using assms by (simp add: cell_at_def)
qed

lemma by_month_and_category_keys:
  "fst ` set (by_month_and_category ks) = (\<lambda>r. (month_of r, label r)) ` {r \<in> set ks. label r \<noteq> NaN}"
proof -
  have "fst ` set (by_month_and_category ks) = set (map fst (by_month_and_category ks))" by simp
  also have "\<dots> = (\<lambda>r. (month_of r, label r)) ` {r \<in> set ks. label r \<noteq> NaN}"
    unfolding by_month_and_category_def groupby_sum_keys by auto
  finally show ?thesis .
qed

lemma by_month_and_category_lookup:
  assumes "c \<noteq> NaN"
  shows "(case map_of (by_month_and_category ks) (m, c) of Some v \<Rightarrow> v | None \<Rightarrow> 0)
           = spec_cell_sum ks m c"
proof -
  let ?ks = "filter (\<lambda>r. label r \<noteq> NaN) ks"
  have same: "filter (\<lambda>r. (month_of r, label r) = (m, c)) ?ks
                = filter (\<lambda>r. month_of r = m \<and> label r = c) ks"
    using assms by (induction ks) auto
  show ?thesis
  proof (cases "(m, c) \<in> (\<lambda>r. (month_of r, label r)) ` set ?ks")
    case True
    then show ?thesis
      unfolding by_month_and_category_def groupby_sum_lookup spec_cell_sum_def
      using same by simp
  next
    case False
    then have "filter (\<lambda>r. (month_of r, label r) = (m, c)) ?ks = []"
      by (auto simp: filter_empty_conv)
    with same have "spec_cell_sum ks m c = 0" by (simp add: spec_cell_sum_def)
    with False show ?thesis
      unfolding by_month_and_category_def groupby_sum_lookup by simp
  qed
qed

lemma sum_list_single:
  "distinct cols \<Longrightarrow> x \<in> set cols \<Longrightarrow>
   sum_list (map (\<lambda>c. if x = c then a else 0) cols) = (a::rat)"
proof (induction cols)
  case Nil
  then show ?case by simp
next
  case (Cons c cols)
  show ?case
  proof (cases "x = c")
    case True
    with Cons.prems have "x \<notin> set cols" by simp
    then have "sum_list (map (\<lambda>c. if x = c then a else 0) cols) = 0"
      by (induction cols) auto
    with True show ?thesis by simp
  next
    case False
    with Cons show ?thesis by simp
  qed
qed

lemma cell_sums_partition_month:
  assumes "distinct cols" and "\<forall>r \<in> set ks. label r \<in> set cols"
  shows "sum_list (map (spec_cell_sum ks m) cols) = spec_monthly_total ks m"
  using assms(2)
proof (induction ks)
  case Nil
  show ?case by (simp add: spec_cell_sum_def spec_monthly_total_def)
next
  case (Cons r ks)
  then have IH: "sum_list (map (spec_cell_sum ks m) cols) = spec_monthly_total ks m"
    and r: "label r \<in> set cols" by simp_all
  show ?case
  proof (cases "month_of r = m")
    case False
    then have "spec_cell_sum (r # ks) m = spec_cell_sum ks m"
      by (auto simp: spec_cell_sum_def fun_eq_iff)
    with False IH show ?thesis by (simp add: spec_monthly_total_def)
  next
    case True
    then have "spec_cell_sum (r # ks) m
        = (\<lambda>c. (if label r = c then amt r else 0) + spec_cell_sum ks m c)"
      by (auto simp: spec_cell_sum_def fun_eq_iff)
    then have "sum_list (map (spec_cell_sum (r # ks) m) cols)
        = sum_list (map (\<lambda>c. if label r = c then amt r else 0) cols)
          + sum_list (map (spec_cell_sum ks m) cols)"
      by (simp add: sum_list_addf)
    also have "\<dots> = amt r + spec_monthly_total ks m"
      using sum_list_single [OF assms(1) r] IH by simp
    finally show ?thesis using True by (simp add: spec_monthly_total_def)
  qed
qed

lemma report_of_labelled_rows:
  assumes "\<forall>r \<in> set ks. label r \<noteq> NaN"
  shows "index (unstack 0 (by_month_and_category ks)) = sort (remdups (map month_of ks))"
    and "\<forall>m \<in> set (index (unstack 0 (by_month_and_category ks))).
           row_total (unstack 0 (by_month_and_category ks)) m = spec_monthly_total ks m"
proof -
  let ?s = "by_month_and_category ks"
  let ?t = "unstack 0 ?s"
  have keys: "fst ` set ?s = (\<lambda>r. (month_of r, label r)) ` set ks"
    using assms unfolding by_month_and_category_keys by auto
  have idx: "index ?t = sort (remdups (map (fst \<circ> fst) ?s))"
    by (simp add: unstack_def Let_def)
  have cols: "columns ?t = sort_key label_order (remdups (map (snd \<circ> fst) ?s))"
    by (simp add: unstack_def Let_def)
  have "(\<lambda>x. fst (fst x)) ` set ?s = fst ` (fst ` set ?s)" by (simp add: image_image)
  also have "\<dots> = fst ` ((\<lambda>r. (month_of r, label r)) ` set ks)" by (simp only: keys)
  also have "\<dots> = month_of ` set ks" by (simp add: image_image)
  finally have months: "(\<lambda>x. fst (fst x)) ` set ?s = month_of ` set ks" .
  have "sort (remdups (map (fst \<circ> fst) ?s)) = sort (remdups (map month_of ks))"
    by (rule sorted_distinct_set_unique) (simp_all add: months)
  with idx show i: "index ?t = sort (remdups (map month_of ks))" by simp
  have "set (columns ?t) = snd ` (fst ` set ?s)" unfolding cols by (simp add: image_image)
  also have "\<dots> = snd ` ((\<lambda>r. (month_of r, label r)) ` set ks)" by (simp only: keys)
  also have "\<dots> = label ` set ks" by (simp add: image_image)
  finally have labels: "set (columns ?t) = label ` set ks" .
  have d: "distinct (columns ?t)" unfolding cols by simp
  have covered: "\<forall>r \<in> set ks. label r \<in> set (columns ?t)" using labels by simp
  have notnan: "\<forall>c \<in> set (columns ?t). c \<noteq> NaN" using labels assms by auto
  show "\<forall>m \<in> set (index ?t). row_total ?t m = spec_monthly_total ks m"
  proof
    fix m assume m: "m \<in> set (index ?t)"
    have "cells ?t = map (\<lambda>m. map (\<lambda>c. case map_of ?s (m, c) of Some v \<Rightarrow> v | None \<Rightarrow> 0) (columns ?t)) (index ?t)"
      by (simp add: unstack_def Let_def)
    then have "cells ?t ! position m (index ?t)
        = map (\<lambda>c. case map_of ?s (m, c) of Some v \<Rightarrow> v | None \<Rightarrow> 0) (columns ?t)"
      using position_less [OF m] nth_position [OF m] by simp
    also have "\<dots> = map (spec_cell_sum ks m) (columns ?t)"
      using notnan by (simp add: by_month_and_category_lookup)
    finally have "row_total ?t m = sum_list (map (spec_cell_sum ks m) (columns ?t))"
      by (simp add: row_total_def)
    then show "row_total ?t m = spec_monthly_total ks m"
      using cell_sums_partition_month [OF d covered] by simp
  qed
qed

lemma mean_of_monthly_totals:
  assumes "ks \<noteq> []"
  shows "mean (map snd (by_month ks)) = Some (spec_mean_of_monthly_totals ks)"
proof -
  let ?L = "sort (remdups (map month_of ks))"
  have d: "distinct ?L" and s: "set ?L = month_of ` set ks" by simp_all
  have ne: "?L \<noteq> []" using assms s by (metis empty_set image_is_empty set_empty)
  have totals: "map snd (by_month ks) = map (spec_monthly_total ks) ?L"
    by (simp add: by_month_as_table comp_def)
  have "sum_list (map (spec_monthly_total ks) ?L) = (\<Sum>m \<in> set ?L. spec_monthly_total ks m)"
    using d by (rule sum_list_distinct_conv_sum_set)
  moreover have "length ?L = card (set ?L)" using distinct_card [OF d] by (rule sym)
  ultimately show ?thesis
    using ne unfolding totals mean_def spec_mean_of_monthly_totals_def s [symmetric] by simp
qed

lemma add_all_error: "add_all acc vs = Inl e \<Longrightarrow> e = TypeError"
proof (induction vs arbitrary: acc)
  case Nil
  then show ?case by simp
next
  case (Cons v vs)
  show ?case
  proof (cases "py_add acc v")
    case (Inl e')
    with Cons.prems have "e = e'" by simp
    moreover from Inl have "e' = TypeError"
      by (cases acc; cases v) auto
    ultimately show ?thesis by simp
  next
    case (Inr acc')
    with Cons.prems have "add_all acc' vs = Inl e" by simp
    then show ?thesis by (rule Cons.IH)
  qed
qed

lemma series_sum_error: "series_sum cs = Inl e \<Longrightarrow> e = TypeError"
  by (auto simp: series_sum_def split: list.splits dest: add_all_error)

lemma total_expenses_error:
  "total_expenses dt num cur file = Inl e \<Longrightarrow> e = TypeError \<or> e = ParserError"
  by (cases "file") (auto simp: total_expenses_def pd_read_csv_def dest: series_sum_error)

lemma py_sub_error: "py_sub a v = Inl e \<Longrightarrow> e = TypeError"
  by (cases v) auto

lemma budget_sidebar_assigned:
  "0 < yearly_income \<Longrightarrow>
   budget_sidebar yearly_income savings_goal = Some (yearly_income / 12 - savings_goal)"
  by (simp add: budget_sidebar_def calculate_the_monthly_budget_def Let_def)

lemma clean_malformed: "\<not> well_formed dt num r \<Longrightarrow> clean dt num r = None"
  by (auto simp: well_formed_def clean_def split: option.splits)

lemma cleaned_filter:
  "cleaned dt num (filter (well_formed dt num) df) = cleaned dt num df"
proof (induction df)
  case Nil
  show ?case by simp
next
  case (Cons r df)
  show ?case
  proof (cases "well_formed dt num r")
    case True
    with Cons show ?thesis by (simp add: cleaned_def map_filter_simps split: option.splits)
  next
    case False
    with Cons clean_malformed [OF False] show ?thesis
      by (simp add: cleaned_def map_filter_simps)
  qed
qed

lemma cleaned_append: "cleaned dt num (xs @ ys) = cleaned dt num xs @ cleaned dt num ys"
  by (simp add: cleaned_def map_filter_def)

lemma cleaned_drop_row:
  "\<not> well_formed dt num r \<Longrightarrow> cleaned dt num (xs @ r # ys) = cleaned dt num (xs @ ys)"
  using cleaned_append [of dt num xs "r # ys"] cleaned_append [of dt num xs ys]
  by (simp add: cleaned_def map_filter_simps clean_malformed)












subsection \<open>The budget calculator\<close>

text \<open>
  C4. \<open>calculate_the_monthly_budget\<close> returns the yearly income divided by 12 and that minus
  the savings goal, whatever the two inputs are; nothing checks that the goal fits into the
  monthly income, so the second component can be negative (as at income 1200, goal 500);
  at (120000, 500) the result is (10000, 9500).
\<close>

theorem monthly_budget_values:
  "calculate_the_monthly_budget yearly_income savings_goal
     = (yearly_income / 12, yearly_income / 12 - savings_goal)
   \<and> calculate_the_monthly_budget 120000 500 = (10000, 9500)
   \<and> snd (calculate_the_monthly_budget 1200 500) < 0"
  by (simp add: calculate_the_monthly_budget_def Let_def)

text \<open>
  C10. The variable \<open>remaining_budget\<close> is assigned exactly when the yearly income is
  positive, and the block that reads it runs only then: whatever the sidebar inputs, the
  file and the date are, a run of the page never ends in the NameError of an unassigned
  variable.
\<close>

theorem remaining_budget_defined_when_read:
  "(0 < yearly_income \<longrightarrow> budget_sidebar yearly_income savings_goal \<noteq> None)
   \<and> page_budget dt num current_month file yearly_income savings_goal \<noteq> Budget_error NameError"
proof
  show "0 < yearly_income \<longrightarrow> budget_sidebar yearly_income savings_goal \<noteq> None"
    by (simp add: budget_sidebar_assigned)
next
  show "page_budget dt num current_month file yearly_income savings_goal \<noteq> Budget_error NameError"
  proof (cases "0 < yearly_income")
    case False
    then show ?thesis by (simp add: page_budget_def remaining_budget_block_def)
  next
    case True
    then obtain b where b: "budget_sidebar yearly_income savings_goal = Some b"
      by (simp add: budget_sidebar_assigned)
    show ?thesis
    proof (cases "total_expenses dt num current_month file")
      case (Inl e)
      then have "e \<noteq> NameError" by (auto dest: total_expenses_error)
      with True Inl show ?thesis by (simp add: page_budget_def remaining_budget_block_def)
    next
      case (Inr v)
      show ?thesis
      proof (cases "py_sub b v")
        case (Inl e)
        then have "e \<noteq> NameError" by (auto dest: py_sub_error)
        with True Inr Inl b show ?thesis by (simp add: page_budget_def remaining_budget_block_def)
      next
        case (Inr r)
        with True \<open>total_expenses dt num current_month file = Inr v\<close> b show ?thesis
          by (simp add: page_budget_def remaining_budget_block_def)
      qed
    qed
  qed
qed

theorem remaining_budget_defined_when_read_witness:
  "budget_sidebar 120000 500 \<noteq> None
   \<and> page_budget iso_date decimal (2026, 11) Absent 120000 500 \<noteq> Budget_error NameError
   \<and> page_budget iso_date decimal (2026, 11) Absent 120000 500 = Remaining_budget 9500"
proof -
  have "page_budget iso_date decimal (2026, 11) Absent 120000 500 = Remaining_budget 9500"
    by code_simp
  then show ?thesis
    using remaining_budget_defined_when_read [of 120000 500 iso_date decimal "(2026, 11)" Absent]
    by simp
qed

text \<open>
  C1, at an input where it fails. The block coerces the dates but, unlike \<open>view_report\<close> and
  \<open>predict_the_next_month\<close>, not the amounts: one amount that is not a number makes the
  whole \<open>Amount\<close> column text, the sum of the current month's rows is then a text, and
  subtracting it from the budget raises TypeError. Here the bad row is not even in the
  current month. Without that row the block shows 9500 - 12.5.
\<close>

theorem budget_block_fails_on_text_amount:
  "page_budget iso_date decimal (2026, 11)
     (Table [\<lparr>Date = ''2026-11-03'', Amount = ''12.5'', Category = ''Food'', Description = ''lunch''\<rparr>,
             \<lparr>Date = ''2026-10-20'', Amount = ''abc'', Category = ''Food'', Description = ''typo''\<rparr>])
     120000 500 = Budget_error TypeError
   \<and> page_budget iso_date decimal (2026, 11)
     (Table [\<lparr>Date = ''2026-11-03'', Amount = ''12.5'', Category = ''Food'', Description = ''lunch''\<rparr>])
     120000 500 = Remaining_budget (9500 - 25 / 2)"
  by code_simp

subsection \<open>The report\<close>

text \<open>
  C9. \<open>view_report\<close> returns a message or the table, never both and never neither: a
  missing file and a file pandas rejects give a message and no table, every other file
  gives a table and no message.
\<close>

theorem view_report_message_or_table:
  "(fst (view_report dt num file) = None) \<noteq> (snd (view_report dt num file) = None)
   \<and> (file = Absent \<longrightarrow> view_report dt num file = (Some No_expenses_recorded_yet, None))
   \<and> (file = Garbled \<longrightarrow> view_report dt num file = (Some (Error_generating_report ParserError), None))
   \<and> (\<forall>rs. file = Table rs \<longrightarrow> (\<exists>t. view_report dt num file = (None, Some t)))"
  by (cases "file") (simp_all add: view_report_def pd_read_csv_def)

theorem view_report_message_or_table_witness:
  "view_report iso_date decimal Absent = (Some No_expenses_recorded_yet, None)
   \<and> view_report iso_date decimal Garbled = (Some (Error_generating_report ParserError), None)
   \<and> (\<exists>t. view_report iso_date decimal
          (Table [\<lparr>Date = ''2026-11-03'', Amount = ''12.5'', Category = ''Food'',
                   Description = ''lunch''\<rparr>]) = (None, Some t))"
  using view_report_message_or_table [of iso_date decimal Absent]
    view_report_message_or_table [of iso_date decimal Garbled]
    view_report_message_or_table [of iso_date decimal
      "Table [\<lparr>Date = ''2026-11-03'', Amount = ''12.5'', Category = ''Food'',
               Description = ''lunch''\<rparr>]"]
  by simp

text \<open>
  C6. With no file, the report and the forecast return the text "No expenses recorded yet!"
  (the report with no table), the current-month expenses are 0, and the page shows the
  budget after savings minus 0.
\<close>

theorem missing_file_is_no_data:
  "view_report dt num Absent = (Some No_expenses_recorded_yet, None)
   \<and> predict_the_next_month dt num Absent = No_expenses_recorded_yet
   \<and> total_expenses dt num current_month Absent = Inr (Number 0)
   \<and> (0 < yearly_income \<longrightarrow>
        page_budget dt num current_month Absent yearly_income savings_goal
          = Remaining_budget (yearly_income / 12 - savings_goal - 0))"
  by (simp add: view_report_def predict_the_next_month_def total_expenses_def page_budget_def
      remaining_budget_block_def budget_sidebar_def calculate_the_monthly_budget_def Let_def)

theorem missing_file_is_no_data_witness:
  "(0::rat) < 120000
   \<and> page_budget iso_date decimal (2026, 11) Absent 120000 500
       = Remaining_budget (120000 / 12 - 500 - 0)"
  using missing_file_is_no_data [of iso_date decimal "(2026, 11)" 120000 500]
  by simp

text \<open>
  C7. In the table \<open>view_report\<close> returns, the cell at a row label \<open>m\<close> and a column label \<open>c\<close>
  is the sum of the amounts of the rows that passed both coercions and have month \<open>m\<close> and
  category \<open>c\<close>; where there is no such row the cell is 0.
\<close>

theorem report_cells_are_group_sums:
  assumes "view_report dt num (Table rs) = (e, Some t)"
    and "m \<in> set (index t)" and "c \<in> set (columns t)"
  shows "cell_at t m c = Some (spec_cell_sum (cleaned dt num (read_table num rs)) m c)
       \<and> ((\<forall>r \<in> set (cleaned dt num (read_table num rs)). \<not> (month_of r = m \<and> label r = c))
            \<longrightarrow> cell_at t m c = Some 0)"
proof -
  let ?ks = "cleaned dt num (read_table num rs)"
  have t: "t = unstack 0 (by_month_and_category ?ks)"
    using assms(1) by (simp add: view_report_def pd_read_csv_def)
  have "c \<in> (snd \<circ> fst) ` set (by_month_and_category ?ks)"
    using assms(3) unfolding t columns_unstack .
  then have "c \<in> snd ` fst ` set (by_month_and_category ?ks)" by (simp add: image_comp)
  then have "c \<noteq> NaN" unfolding by_month_and_category_keys by auto
  have "cell_at t m c = Some (case map_of (by_month_and_category ?ks) (m, c) of Some v \<Rightarrow> v | None \<Rightarrow> 0)"
    using assms(2,3) unfolding t by (rule cell_at_unstack)
  then have main: "cell_at t m c = Some (spec_cell_sum ?ks m c)"
    using by_month_and_category_lookup [OF \<open>c \<noteq> NaN\<close>] by simp
  have "spec_cell_sum ?ks m c = 0" if "\<forall>r \<in> set ?ks. \<not> (month_of r = m \<and> label r = c)"
  proof -
    from that have "filter (\<lambda>r. month_of r = m \<and> label r = c) ?ks = []"
      by (auto simp: filter_empty_conv)
    then show ?thesis by (simp add: spec_cell_sum_def)
  qed
  with main show ?thesis by auto
qed

theorem report_cells_are_group_sums_witness:
  "view_report iso_date decimal (Table
      [\<lparr>Date = ''2026-11-03'', Amount = ''12.5'', Category = ''Food'', Description = ''lunch''\<rparr>,
       \<lparr>Date = ''2026-11-09'', Amount = ''7.5'', Category = ''Food'', Description = ''snack''\<rparr>,
       \<lparr>Date = ''2026-10-01'', Amount = ''900'', Category = ''Rent'', Description = ''flat''\<rparr>])
     = (None, Some \<lparr>index = [(2026, 10), (2026, 11)], columns = [Str ''Food'', Str ''Rent''],
                     cells = [[0, 900], [20, 0]]\<rparr>)
   \<and> cell_at \<lparr>index = [(2026, 10), (2026, 11)], columns = [Str ''Food'', Str ''Rent''],
               cells = [[0, 900], [20, 0]]\<rparr> (2026, 11) (Str ''Food'')
       = Some (spec_cell_sum (cleaned iso_date decimal (read_table decimal
          [\<lparr>Date = ''2026-11-03'', Amount = ''12.5'', Category = ''Food'', Description = ''lunch''\<rparr>,
           \<lparr>Date = ''2026-11-09'', Amount = ''7.5'', Category = ''Food'', Description = ''snack''\<rparr>,
           \<lparr>Date = ''2026-10-01'', Amount = ''900'', Category = ''Rent'', Description = ''flat''\<rparr>]))
          (2026, 11) (Str ''Food''))
   \<and> cell_at \<lparr>index = [(2026, 10), (2026, 11)], columns = [Str ''Food'', Str ''Rent''],
               cells = [[0, 900], [20, 0]]\<rparr> (2026, 11) (Str ''Rent'') = Some 0"
proof -
  let ?rs = "[\<lparr>Date = ''2026-11-03'', Amount = ''12.5'', Category = ''Food'', Description = ''lunch''\<rparr>,
       \<lparr>Date = ''2026-11-09'', Amount = ''7.5'', Category = ''Food'', Description = ''snack''\<rparr>,
       \<lparr>Date = ''2026-10-01'', Amount = ''900'', Category = ''Rent'', Description = ''flat''\<rparr>]"
  let ?t = "\<lparr>index = [(2026::nat, 10::nat), (2026, 11)], columns = [Str ''Food'', Str ''Rent''],
              cells = [[0, 900], [20, 0]]\<rparr>"
  have v: "view_report iso_date decimal (Table ?rs) = (None, Some ?t)"
    by code_simp
  have ks: "cleaned iso_date decimal (read_table decimal ?rs)
      = [\<lparr>month_of = (2026, 11), label = Str ''Food'', amt = 25 / 2\<rparr>,
         \<lparr>month_of = (2026, 11), label = Str ''Food'', amt = 15 / 2\<rparr>,
         \<lparr>month_of = (2026, 10), label = Str ''Rent'', amt = 900\<rparr>]"
    by code_simp
  have m: "(2026, 11) \<in> set (index ?t)" by simp
  have food: "Str ''Food'' \<in> set (columns ?t)" and rent: "Str ''Rent'' \<in> set (columns ?t)"
    by simp_all
  have none: "\<forall>r \<in> set (cleaned iso_date decimal (read_table decimal ?rs)).
      \<not> (month_of r = (2026, 11) \<and> label r = Str ''Rent'')"
    by (simp add: ks)
  from report_cells_are_group_sums [OF v m food] report_cells_are_group_sums [OF v m rent] none v
  show ?thesis by blast
qed

text \<open>
  C5. The report and the forecast are computed from the rows of the DataFrame that pass both
  coercions and from nothing else: with the rows whose date or amount fails coercion taken
  out of the DataFrame the results are the same, such a row yields no entry for any cell or
  monthly total, and both functions return their result (a table, a prediction text)
  rather than an error text.
\<close>

theorem malformed_rows_are_dropped:
  "view_report dt num (Table rs)
     = (None, Some (unstack 0 (by_month_and_category
          (cleaned dt num (filter (well_formed dt num) (read_table num rs))))))
   \<and> predict_the_next_month dt num (Table rs)
     = Predicted_total (mean (map snd (by_month
          (cleaned dt num (filter (well_formed dt num) (read_table num rs))))))
   \<and> (\<forall>xs r ys. read_table num rs = xs @ r # ys \<and> \<not> well_formed dt num r \<longrightarrow>
         clean dt num r = None
         \<and> cleaned dt num (read_table num rs) = cleaned dt num (xs @ ys))"
  by (simp add: view_report_def predict_the_next_month_def pd_read_csv_def Let_def
      cleaned_filter cleaned_drop_row clean_malformed)

lemma example_frame:
  "read_table decimal
     [\<lparr>Date = ''2026-11-03'', Amount = ''12.5'', Category = ''Food'', Description = ''lunch''\<rparr>,
      \<lparr>Date = ''not-a-date'', Amount = ''abc'', Category = ''Rent'', Description = ''typo''\<rparr>]
   = [\<lparr>Date = Str ''2026-11-03'', Amount = Str ''12.5'', Category = Str ''Food'',
         Description = Str ''lunch''\<rparr>]
     @ \<lparr>Date = Str ''not-a-date'', Amount = Str ''abc'', Category = Str ''Rent'',
        Description = Str ''typo''\<rparr> # []"
  by code_simp

lemma example_bad_row:
  "\<not> well_formed iso_date decimal
      \<lparr>Date = Str ''not-a-date'', Amount = Str ''abc'', Category = Str ''Rent'',
        Description = Str ''typo''\<rparr>"
  by code_simp

lemma example_kept:
  "cleaned iso_date decimal (filter (well_formed iso_date decimal) (read_table decimal
     [\<lparr>Date = ''2026-11-03'', Amount = ''12.5'', Category = ''Food'', Description = ''lunch''\<rparr>,
      \<lparr>Date = ''not-a-date'', Amount = ''abc'', Category = ''Rent'', Description = ''typo''\<rparr>]))
   = [\<lparr>month_of = (2026, 11), label = Str ''Food'', amt = 25 / 2\<rparr>]"
  by code_simp

lemma example_table:
  "unstack 0 (by_month_and_category
      [\<lparr>month_of = (2026, 11), label = Str ''Food'', amt = 25 / 2\<rparr>])
   = \<lparr>index = [(2026, 11)], columns = [Str ''Food''], cells = [[25 / 2]]\<rparr>"
  by code_simp

lemma example_forecast:
  "mean (map snd (by_month [\<lparr>month_of = (2026, 11), label = Str ''Food'', amt = 25 / 2\<rparr>]))
   = Some (25 / 2)"
  by (simp add: by_month_def groupby_sum_def mean_def)

theorem malformed_rows_are_dropped_witness:
  "view_report iso_date decimal (Table
     [\<lparr>Date = ''2026-11-03'', Amount = ''12.5'', Category = ''Food'', Description = ''lunch''\<rparr>,
      \<lparr>Date = ''not-a-date'', Amount = ''abc'', Category = ''Rent'', Description = ''typo''\<rparr>])
     = (None, Some \<lparr>index = [(2026, 11)], columns = [Str ''Food''], cells = [[25 / 2]]\<rparr>)
   \<and> predict_the_next_month iso_date decimal (Table
     [\<lparr>Date = ''2026-11-03'', Amount = ''12.5'', Category = ''Food'', Description = ''lunch''\<rparr>,
      \<lparr>Date = ''not-a-date'', Amount = ''abc'', Category = ''Rent'', Description = ''typo''\<rparr>])
     = Predicted_total (Some (25 / 2))
   \<and> cleaned iso_date decimal (read_table decimal
     [\<lparr>Date = ''2026-11-03'', Amount = ''12.5'', Category = ''Food'', Description = ''lunch''\<rparr>,
      \<lparr>Date = ''not-a-date'', Amount = ''abc'', Category = ''Rent'', Description = ''typo''\<rparr>])
     = cleaned iso_date decimal ([\<lparr>Date = Str ''2026-11-03'', Amount = Str ''12.5'', Category = Str ''Food'',
         Description = Str ''lunch''\<rparr>] @ [])"
proof (intro conjI)
  show "view_report iso_date decimal (Table
     [\<lparr>Date = ''2026-11-03'', Amount = ''12.5'', Category = ''Food'', Description = ''lunch''\<rparr>,
      \<lparr>Date = ''not-a-date'', Amount = ''abc'', Category = ''Rent'', Description = ''typo''\<rparr>])
     = (None, Some \<lparr>index = [(2026, 11)], columns = [Str ''Food''], cells = [[25 / 2]]\<rparr>)"
    using malformed_rows_are_dropped [of iso_date decimal
      "[\<lparr>Date = ''2026-11-03'', Amount = ''12.5'', Category = ''Food'', Description = ''lunch''\<rparr>,
      \<lparr>Date = ''not-a-date'', Amount = ''abc'', Category = ''Rent'', Description = ''typo''\<rparr>]", THEN conjunct1]
    unfolding example_kept example_table .
  show "predict_the_next_month iso_date decimal (Table
     [\<lparr>Date = ''2026-11-03'', Amount = ''12.5'', Category = ''Food'', Description = ''lunch''\<rparr>,
      \<lparr>Date = ''not-a-date'', Amount = ''abc'', Category = ''Rent'', Description = ''typo''\<rparr>])
     = Predicted_total (Some (25 / 2))"
    using malformed_rows_are_dropped [of iso_date decimal
      "[\<lparr>Date = ''2026-11-03'', Amount = ''12.5'', Category = ''Food'', Description = ''lunch''\<rparr>,
      \<lparr>Date = ''not-a-date'', Amount = ''abc'', Category = ''Rent'', Description = ''typo''\<rparr>]", THEN conjunct2, THEN conjunct1]
    unfolding example_kept example_forecast .
  show "cleaned iso_date decimal (read_table decimal
     [\<lparr>Date = ''2026-11-03'', Amount = ''12.5'', Category = ''Food'', Description = ''lunch''\<rparr>,
      \<lparr>Date = ''not-a-date'', Amount = ''abc'', Category = ''Rent'', Description = ''typo''\<rparr>])
     = cleaned iso_date decimal ([\<lparr>Date = Str ''2026-11-03'', Amount = Str ''12.5'', Category = Str ''Food'',
         Description = Str ''lunch''\<rparr>] @ [])"
    using malformed_rows_are_dropped [of iso_date decimal
      "[\<lparr>Date = ''2026-11-03'', Amount = ''12.5'', Category = ''Food'', Description = ''lunch''\<rparr>,
      \<lparr>Date = ''not-a-date'', Amount = ''abc'', Category = ''Rent'', Description = ''typo''\<rparr>]", THEN conjunct2, THEN conjunct2, rule_format,
      OF conjI [OF example_frame example_bad_row]]
    by (rule conjunct2)
qed

subsection \<open>The forecast\<close>

text \<open>
  C3. For a file with at least one row that passes both coercions,
  \<open>predict_the_next_month\<close> returns the mean of the monthly totals (each the sum of the
  month's amounts over all categories): with one month of data that month's total, with two
  months of totals 100 and 300 the value 200. The text returned prints the value with two
  decimals.
\<close>

theorem prediction_is_mean_of_monthly_totals:
  assumes "cleaned dt num (read_table num rs) \<noteq> []"
  shows "predict_the_next_month dt num (Table rs)
           = Predicted_total (Some (spec_mean_of_monthly_totals (cleaned dt num (read_table num rs))))
       \<and> (\<forall>m. month_of ` set (cleaned dt num (read_table num rs)) = {m} \<longrightarrow>
             predict_the_next_month dt num (Table rs)
               = Predicted_total (Some (spec_monthly_total (cleaned dt num (read_table num rs)) m)))
       \<and> (\<forall>m1 m2. month_of ` set (cleaned dt num (read_table num rs)) = {m1, m2} \<and> m1 \<noteq> m2
             \<and> spec_monthly_total (cleaned dt num (read_table num rs)) m1 = 100
             \<and> spec_monthly_total (cleaned dt num (read_table num rs)) m2 = 300 \<longrightarrow>
             predict_the_next_month dt num (Table rs) = Predicted_total (Some 200))"
proof -
  let ?ks = "cleaned dt num (read_table num rs)"
  have p: "predict_the_next_month dt num (Table rs)
             = Predicted_total (Some (spec_mean_of_monthly_totals ?ks))"
    using mean_of_monthly_totals [OF assms]
    by (simp add: predict_the_next_month_def pd_read_csv_def Let_def)
  have one: "spec_mean_of_monthly_totals ?ks = spec_monthly_total ?ks m"
    if "month_of ` set ?ks = {m}" for m
    using that by (simp add: spec_mean_of_monthly_totals_def)
  have two: "spec_mean_of_monthly_totals ?ks = 200"
    if "month_of ` set ?ks = {m1, m2}" "m1 \<noteq> m2"
      "spec_monthly_total ?ks m1 = 100" "spec_monthly_total ?ks m2 = 300" for m1 m2
    using that by (simp add: spec_mean_of_monthly_totals_def)
  show ?thesis using p one two by simp
qed

theorem prediction_is_mean_of_monthly_totals_witness:
  "cleaned iso_date decimal (read_table decimal
      [\<lparr>Date = ''2026-10-03'', Amount = ''60'', Category = ''Food'', Description = ''market''\<rparr>,
       \<lparr>Date = ''2026-10-09'', Amount = ''40'', Category = ''Travel'', Description = ''train''\<rparr>,
       \<lparr>Date = ''2026-11-01'', Amount = ''300'', Category = ''Rent'', Description = ''flat''\<rparr>]) \<noteq> []
   \<and> predict_the_next_month iso_date decimal (Table
      [\<lparr>Date = ''2026-10-03'', Amount = ''60'', Category = ''Food'', Description = ''market''\<rparr>,
       \<lparr>Date = ''2026-10-09'', Amount = ''40'', Category = ''Travel'', Description = ''train''\<rparr>,
       \<lparr>Date = ''2026-11-01'', Amount = ''300'', Category = ''Rent'', Description = ''flat''\<rparr>])
     = Predicted_total (Some 200)"
proof -
  let ?rs = "[\<lparr>Date = ''2026-10-03'', Amount = ''60'', Category = ''Food'', Description = ''market''\<rparr>,
       \<lparr>Date = ''2026-10-09'', Amount = ''40'', Category = ''Travel'', Description = ''train''\<rparr>,
       \<lparr>Date = ''2026-11-01'', Amount = ''300'', Category = ''Rent'', Description = ''flat''\<rparr>]"
  have ks: "cleaned iso_date decimal (read_table decimal ?rs)
      = [\<lparr>month_of = (2026, 10), label = Str ''Food'', amt = 60\<rparr>,
         \<lparr>month_of = (2026, 10), label = Str ''Travel'', amt = 40\<rparr>,
         \<lparr>month_of = (2026, 11), label = Str ''Rent'', amt = 300\<rparr>]"
    by code_simp
  have ne: "cleaned iso_date decimal (read_table decimal ?rs) \<noteq> []"
    by (simp add: ks)
  have months: "month_of ` set (cleaned iso_date decimal (read_table decimal ?rs)) = {(2026, 10), (2026, 11)}"
    by (simp add: ks)
  have t1: "spec_monthly_total (cleaned iso_date decimal (read_table decimal ?rs)) (2026, 10) = 100"
    by (simp add: ks spec_monthly_total_def)
  have t2: "spec_monthly_total (cleaned iso_date decimal (read_table decimal ?rs)) (2026, 11) = 300"
    by (simp add: ks spec_monthly_total_def)
  have "(2026::nat, 10::nat) \<noteq> (2026, 11)" by simp
  with prediction_is_mean_of_monthly_totals [OF ne] months t1 t2
  have "predict_the_next_month iso_date decimal (Table ?rs) = Predicted_total (Some 200)"
    by blast
  with ne show ?thesis by simp
qed

text \<open>
  C8, amended. When every row that passes both coercions has a category (as every row
  written by \<open>adds_expense\<close> has), the monthly totals the forecaster computes are, month by
  month and in the same order, the sums of the rows of the report table. A row with a
  missing category is left out of the report by \<open>groupby\<close> but counted by the forecaster.
\<close>

theorem forecast_totals_agree_with_report:
  assumes "\<forall>r \<in> set (cleaned dt num (read_table num rs)). label r \<noteq> NaN"
  shows "totals_agree dt num rs"
proof -
  let ?ks = "cleaned dt num (read_table num rs)"
  let ?t = "unstack 0 (by_month_and_category ?ks)"
  have v: "view_report dt num (Table rs) = (None, Some ?t)"
    by (simp add: view_report_def pd_read_csv_def)
  have i: "index ?t = sort (remdups (map month_of ?ks))"
    and r: "\<forall>m \<in> set (index ?t). row_total ?t m = spec_monthly_total ?ks m"
    using report_of_labelled_rows [OF assms] by simp_all
  have "by_month ?ks = map (\<lambda>m. (m, spec_monthly_total ?ks m)) (index ?t)"
    unfolding i by (rule by_month_as_table)
  also have "\<dots> = map (\<lambda>m. (m, row_total ?t m)) (index ?t)"
    using r by simp
  finally show ?thesis by (simp add: totals_agree_def v)
qed

theorem forecast_totals_agree_with_report_witness:
  "list_all (\<lambda>r. label r \<noteq> NaN) (cleaned iso_date decimal (read_table decimal
      [\<lparr>Date = ''2026-11-03'', Amount = ''5'', Category = ''Food'', Description = ''lunch''\<rparr>,
       \<lparr>Date = ''2026-11-04'', Amount = ''7'', Category = ''Bills'', Description = ''power''\<rparr>,
       \<lparr>Date = ''2026-10-04'', Amount = ''x'', Category = '''', Description = ''typo''\<rparr>]))
   \<and> totals_agree iso_date decimal
      [\<lparr>Date = ''2026-11-03'', Amount = ''5'', Category = ''Food'', Description = ''lunch''\<rparr>,
       \<lparr>Date = ''2026-11-04'', Amount = ''7'', Category = ''Bills'', Description = ''power''\<rparr>,
       \<lparr>Date = ''2026-10-04'', Amount = ''x'', Category = '''', Description = ''typo''\<rparr>]"
proof -
  let ?rs = "[\<lparr>Date = ''2026-11-03'', Amount = ''5'', Category = ''Food'', Description = ''lunch''\<rparr>,
       \<lparr>Date = ''2026-11-04'', Amount = ''7'', Category = ''Bills'', Description = ''power''\<rparr>,
       \<lparr>Date = ''2026-10-04'', Amount = ''x'', Category = '''', Description = ''typo''\<rparr>]"
  have ks: "cleaned iso_date decimal (read_table decimal ?rs)
      = [\<lparr>month_of = (2026, 11), label = Str ''Food'', amt = 5\<rparr>,
         \<lparr>month_of = (2026, 11), label = Str ''Bills'', amt = 7\<rparr>]"
    by code_simp
  have h: "\<forall>r \<in> set (cleaned iso_date decimal (read_table decimal ?rs)). label r \<noteq> NaN"
    by (simp add: ks)
  have l: "list_all (\<lambda>r. label r \<noteq> NaN) (cleaned iso_date decimal (read_table decimal ?rs))"
    by (simp add: ks)
  show ?thesis by (rule conjI [OF l forecast_totals_agree_with_report [OF h]])
qed

text \<open>
  C8 as stated fails: two rows of November 2026, one without a category. The forecaster's
  total for the month is 12, the row of the report sums to 5.
\<close>

theorem forecast_totals_disagree_on_missing_category:
  "\<not> totals_agree iso_date decimal
      [\<lparr>Date = ''2026-11-03'', Amount = ''5'', Category = ''Food'', Description = ''lunch''\<rparr>,
       \<lparr>Date = ''2026-11-04'', Amount = ''7'', Category = '''', Description = ''cash''\<rparr>]"
  by code_simp

subsection \<open>The record store\<close>





end
